theory Spec2Isabelle
  imports Complex_Main
begin

section \<open>Exceptions\<close>

text \<open>
  The notebook handles no exception: whatever is raised inside a cell ends the cell.
  \<open>IndexError\<close> is what subscripting a list out of range raises, \<open>TypeError\<close> what
  calling a function with the wrong number of arguments raises, and
  \<open>ServiceException\<close> stands for anything raised inside the OWSLib client (network
  failure, a non-2xx answer, an output format the server refuses), with its message.
  \<open>TransformError\<close> stands for the exception with which \<open>shapely.ops.transform\<close>
  ends when the function it was given cannot be applied to a position. Which class of
  exception that is is decided inside Shapely and differs between its versions, so
  none is named: all that is recorded is that the call raises.
\<close>

datatype error = IndexError | TypeError | ServiceException string | TransformError

section \<open>The WFS client\<close>

text \<open>
  \<open>owslib.wfs.WebFeatureService\<close> is an external collaborator. Its constructor takes the
  URL and the protocol version, reads the capabilities of the server and either raises or
  returns a service object. Of that object the notebook uses \<open>contents\<close>, a dictionary
  from feature type name to metadata (kept as an association list in the dictionary's
  iteration order), and the method \<open>getfeature\<close>, called with the keyword arguments
  \<open>typename\<close> and \<open>outputFormat\<close>, which raises or returns the response body.
\<close>

record ('m, 'b) wfs =
  contents :: "(string \<times> 'm) list"
  getfeature :: "string list \<Rightarrow> string \<Rightarrow> error + 'b"

type_synonym ('m, 'b) client = "string \<Rightarrow> string \<Rightarrow> error + ('m, 'b) wfs"

text \<open>
  The calls made to the client are the only effect of the fetch. They are recorded, in
  order, in a trace that is passed through: \<open>Capabilities url version\<close> for the
  constructor, \<open>GetFeature typename outputFormat\<close> for the method.
\<close>

datatype call = Capabilities string string | GetFeature "string list" string

text \<open>\<open>list(d)\<close> of a dictionary: its keys, in iteration order.\<close>

definition list_keys :: "('k \<times> 'v) list \<Rightarrow> 'k list" where
  "list_keys d = map fst d"

text \<open>\<open>xs[i]\<close> for a non-negative index: out of range raises \<open>IndexError\<close>.\<close>

definition getitem :: "'a list \<Rightarrow> nat \<Rightarrow> error + 'a" where
  "getitem xs i = (if i < length xs then Inr (xs ! i) else Inl IndexError)"

text \<open>
  \<^verbatim>\<open>
  def get_wfs_feature(base_resource_url):
      wfs = WebFeatureService(base_resource_url, version="2.0.0")
      wfs_contents = wfs.contents
      wfs_layer = list(wfs_contents)[0]
      feature = wfs.getfeature(
          typename=[wfs_layer],
          outputFormat="GeoJson",
      )
      return feature
  \<close>
\<close>

definition get_wfs_feature ::
  "('m, 'b) client \<Rightarrow> string \<Rightarrow> call list \<Rightarrow> (error + 'b) \<times> call list" where
  "get_wfs_feature WebFeatureService base_resource_url trace =
     (let trace1 = trace @ [Capabilities base_resource_url ''2.0.0''] in
      case WebFeatureService base_resource_url ''2.0.0'' of
        Inl e \<Rightarrow> (Inl e, trace1)
      | Inr wfs \<Rightarrow>
          (let wfs_contents = contents wfs in
           case getitem (list_keys wfs_contents) 0 of
             Inl e \<Rightarrow> (Inl e, trace1)
           | Inr wfs_layer \<Rightarrow>
               (getfeature wfs [wfs_layer] ''GeoJson'',
                trace1 @ [GetFeature [wfs_layer] ''GeoJson''])))"

text \<open>The feature types requested, the output formats declared and the protocol
  versions asked for, read off a trace.\<close>

fun typenames :: "call list \<Rightarrow> string list list" where
  "typenames [] = []"
| "typenames (GetFeature typename outputFormat # cs) = typename # typenames cs"
| "typenames (Capabilities url version # cs) = typenames cs"

fun output_formats :: "call list \<Rightarrow> string list" where
  "output_formats [] = []"
| "output_formats (GetFeature typename outputFormat # cs) = outputFormat # output_formats cs"
| "output_formats (Capabilities url version # cs) = output_formats cs"

fun versions :: "call list \<Rightarrow> string list" where
  "versions [] = []"
| "versions (Capabilities url version # cs) = version # versions cs"
| "versions (GetFeature typename outputFormat # cs) = versions cs"

section \<open>Geometries\<close>

text \<open>
  A position is a coordinate tuple of two components, or of three when the geometry
  carries a height. The geometries are those of Shapely: a point, a line string, a
  linear ring, a polygon (its shell and its holes), and the collections made of parts
  (MultiPoint, MultiLineString, MultiPolygon, GeometryCollection).
\<close>

datatype 'c position = XY 'c 'c | XYZ 'c 'c 'c

datatype collection_kind = MultiPoint | MultiLineString | MultiPolygon | GeometryCollection

datatype 'c geometry =
    Point "'c position"
  | LineString "'c position list"
  | LinearRing "'c position list"
  | Polygon "'c position list" "'c position list list"
  | Collection collection_kind "'c geometry list"

text \<open>
  \<^verbatim>\<open>lambda x, y: (y, x)\<close>: a function of exactly two arguments. Called with the
  three components of a position that has a height, it raises \<open>TypeError\<close>.
\<close>

fun flip_xy :: "'c position \<Rightarrow> error + 'c position" where
  "flip_xy (XY x y) = Inr (XY y x)"
| "flip_xy (XYZ x y z) = Inl TypeError"

text \<open>A list built element by element by a function that may raise: the first
  exception ends it.\<close>

fun try_map :: "('a \<Rightarrow> error + 'b) \<Rightarrow> 'a list \<Rightarrow> error + 'b list" where
  "try_map f [] = Inr []"
| "try_map f (x # xs) =
     (case f x of
        Inl e \<Rightarrow> Inl e
      | Inr y \<Rightarrow> (case try_map f xs of Inl e \<Rightarrow> Inl e | Inr ys \<Rightarrow> Inr (y # ys)))"

text \<open>
  \<open>shapely.ops.transform(func, geom)\<close> is an external collaborator. By its
  documentation it applies \<open>func\<close> to all coordinates of \<open>geom\<close> and returns a new
  geometry of the same type from the transformed coordinates, \<open>func\<close> being called
  with \<open>x\<close>, \<open>y\<close> and, when the geometry has one, \<open>z\<close>: for a polygon the shell
  first, then each hole; for a collection each part in turn. When \<open>func\<close> raises,
  the call ends with an exception (\<open>TransformError\<close>, its class left open). A geometry
  without positions comes back as it is.
\<close>

fun transform :: "('c position \<Rightarrow> error + 'c position) \<Rightarrow> 'c geometry \<Rightarrow> error + 'c geometry"
  and transform_parts ::
    "('c position \<Rightarrow> error + 'c position) \<Rightarrow> 'c geometry list \<Rightarrow> error + 'c geometry list"
where
  "transform func (Point c) =
     (case func c of Inl e \<Rightarrow> Inl TransformError | Inr c' \<Rightarrow> Inr (Point c'))"
| "transform func (LineString cs) =
     (case try_map func cs of
        Inl e \<Rightarrow> Inl TransformError
      | Inr cs' \<Rightarrow> Inr (LineString cs'))"
| "transform func (LinearRing cs) =
     (case try_map func cs of
        Inl e \<Rightarrow> Inl TransformError
      | Inr cs' \<Rightarrow> Inr (LinearRing cs'))"
| "transform func (Polygon shell holes) =
     (case try_map func shell of
        Inl e \<Rightarrow> Inl TransformError
      | Inr shell' \<Rightarrow>
          (case try_map (try_map func) holes of
             Inl e \<Rightarrow> Inl TransformError
           | Inr holes' \<Rightarrow> Inr (Polygon shell' holes')))"
| "transform func (Collection kind parts) =
     (case transform_parts func parts of
        Inl e \<Rightarrow> Inl e
      | Inr parts' \<Rightarrow> Inr (Collection kind parts'))"
| "transform_parts func [] = Inr []"
| "transform_parts func (g # gs) =
     (case transform func g of
        Inl e \<Rightarrow> Inl e
      | Inr g' \<Rightarrow>
          (case transform_parts func gs of Inl e \<Rightarrow> Inl e | Inr gs' \<Rightarrow> Inr (g' # gs')))"

text \<open>\<^verbatim>\<open>lambda polygon: shapely.ops.transform(lambda x, y: (y, x), polygon)\<close>\<close>

definition flip_polygon :: "'c geometry \<Rightarrow> error + 'c geometry" where
  "flip_polygon polygon = transform flip_xy polygon"

text \<open>A geometry is planar when none of its positions has a height.\<close>

fun is_xy :: "'c position \<Rightarrow> bool" where
  "is_xy (XY x y) = True"
| "is_xy (XYZ x y z) = False"

fun planar :: "'c geometry \<Rightarrow> bool" where
  "planar (Point c) = is_xy c"
| "planar (LineString cs) = (\<forall>c \<in> set cs. is_xy c)"
| "planar (LinearRing cs) = (\<forall>c \<in> set cs. is_xy c)"
| "planar (Polygon shell holes) =
     ((\<forall>c \<in> set shell. is_xy c) \<and> (\<forall>h \<in> set holes. \<forall>c \<in> set h. is_xy c))"
| "planar (Collection kind parts) = (\<forall>g \<in> set parts. planar g)"

text \<open>
  The axis swap as the specification words it: the first and the second component of
  every position change places, whatever else the position holds.
\<close>

fun swap_position :: "'c position \<Rightarrow> 'c position" where
  "swap_position (XY x y) = XY y x"
| "swap_position (XYZ x y z) = XYZ y x z"

fun swap_axes :: "'c geometry \<Rightarrow> 'c geometry" where
  "swap_axes (Point c) = Point (swap_position c)"
| "swap_axes (LineString cs) = LineString (map swap_position cs)"
| "swap_axes (LinearRing cs) = LinearRing (map swap_position cs)"
| "swap_axes (Polygon shell holes) =
     Polygon (map swap_position shell) (map (map swap_position) holes)"
| "swap_axes (Collection kind parts) = Collection kind (map swap_axes parts)"

section \<open>Feature collections and tables\<close>

text \<open>
  The response body is GeoJSON; it is represented by the feature collection it encodes.
  A feature has a geometry and properties, a mapping from attribute name to scalar kept
  in the order of the document.
\<close>

datatype scalar = Str string | Num int | Null

record 'c feature =
  feature_geometry :: "'c geometry"
  feature_properties :: "(string \<times> scalar) list"

record 'c feature_collection =
  collection_crs :: "string option"
  features :: "'c feature list"

text \<open>
  A GeoDataFrame: its coordinate reference system and its rows, in index order. A row
  holds the attribute columns and, apart from them, the geometry column.
\<close>

record 'c row =
  properties :: "(string \<times> scalar) list"
  geometry :: "'c geometry"

record 'c geodataframe =
  crs :: "string option"
  rows :: "'c row list"

text \<open>
  \<open>geopandas.read_file\<close> is an external collaborator, modelled by its contract: a table
  with one row per feature, in the order of the collection, holding the attributes of the
  feature and its geometry.
\<close>

definition read_file :: "'c feature_collection \<Rightarrow> 'c geodataframe" where
  "read_file feature =
     \<lparr>crs = collection_crs feature,
      rows = map (\<lambda>f. \<lparr>properties = feature_properties f, geometry = feature_geometry f\<rparr>)
               (features feature)\<rparr>"

text \<open>\<open>gdf[name]\<close> for an attribute column, and \<open>gdf["geometry"]\<close>.\<close>

definition column :: "string \<Rightarrow> 'c geodataframe \<Rightarrow> scalar option list" where
  "column name gdf = map (\<lambda>r. map_of (properties r) name) (rows gdf)"

definition geometry_column :: "'c geodataframe \<Rightarrow> 'c geometry list" where
  "geometry_column gdf = map geometry (rows gdf)"

text \<open>\<open>gdf["geometry"] = values\<close>: the values replace the geometries row by row.\<close>

definition set_geometry_column :: "'c geodataframe \<Rightarrow> 'c geometry list \<Rightarrow> 'c geodataframe" where
  "set_geometry_column gdf values =
     gdf\<lparr>rows := map (\<lambda>(r, g). r\<lparr>geometry := g\<rparr>) (zip (rows gdf) values)\<rparr>"

text \<open>
  \<^verbatim>\<open>
  gdf["geometry"] = gdf["geometry"].map(
      lambda polygon: shapely.ops.transform(lambda x, y: (y, x), polygon))  # flip x and y
  \<close>
  \<open>Series.map\<close> calls the function on each value in index order. The value of the
  statement is the new table, or the exception that ended it.
\<close>

definition flip_x_and_y :: "'c geodataframe \<Rightarrow> error + 'c geodataframe" where
  "flip_x_and_y gdf =
     (case try_map flip_polygon (geometry_column gdf) of
        Inl e \<Rightarrow> Inl e
      | Inr values \<Rightarrow> Inr (set_geometry_column gdf values))"

text \<open>The variable \<open>gdf\<close> after the statement: when the right-hand side raises, the
  assignment does not happen.\<close>

definition gdf_after :: "'c geodataframe \<Rightarrow> 'c geodataframe" where
  "gdf_after gdf = (case flip_x_and_y gdf of Inl e \<Rightarrow> gdf | Inr gdf' \<Rightarrow> gdf')"

text \<open>
  The cell as a whole:
  \<^verbatim>\<open>
  feature = get_wfs_feature(base_resource_url)
  gdf = gpd.read_file(feature)
  gdf["geometry"] = gdf["geometry"].map(...)  # flip x and y
  \<close>
\<close>

definition fetch_load_flip ::
  "('m, 'c feature_collection) client \<Rightarrow> string \<Rightarrow> call list
     \<Rightarrow> (error + 'c geodataframe) \<times> call list" where
  "fetch_load_flip WebFeatureService base_resource_url trace =
     (case get_wfs_feature WebFeatureService base_resource_url trace of
        (Inl e, trace') \<Rightarrow> (Inl e, trace')
      | (Inr feature, trace') \<Rightarrow> (flip_x_and_y (read_file feature), trace'))"

text \<open>The address the notebook fetches from.\<close>

definition base_resource_url :: string where
  "base_resource_url = ''https://mapservices.weather.noaa.gov/vector/services/outlooks/cpc_6_10_day_outlk/MapServer/WFSServer?service=WFS&version=1.0.0&request=GetFeature&srsname=EPSG%3A4326&typename=cpc_6_10_day_outlk%3ACPC_6-10_Day_Temperature_Outlook&propertyname=%2A''"

text \<open>The calls one invocation of the fetch makes, on a fresh trace.\<close>

definition calls_made :: "('m, 'b) client \<Rightarrow> string \<Rightarrow> call list" where
  "calls_made WebFeatureService url = snd (get_wfs_feature WebFeatureService url [])"

text \<open>The function mapped over the geometry column, applied to its own result.\<close>

definition flip_twice :: "'c geometry \<Rightarrow> error + 'c geometry" where
  "flip_twice g = (case flip_polygon g of Inl e \<Rightarrow> Inl e | Inr g' \<Rightarrow> flip_polygon g')"

text \<open>
  The normalizer as the specification words it: every geometry of the collection has
  its axes swapped, and nothing else changes.
\<close>

definition normalize_as_specified :: "'c geodataframe \<Rightarrow> 'c geodataframe" where
  "normalize_as_specified gdf = gdf\<lparr>rows := map (\<lambda>r. r\<lparr>geometry := swap_axes (geometry r)\<rparr>) (rows gdf)\<rparr>"



section \<open>Example servers and tables\<close>

text \<open>A ring near Champaign, Illinois, in GeoJSON order (longitude first), and the
  same ring with the axes swapped.\<close>

definition outlook_ring :: "real position list" where
  "outlook_ring =
     [XY (- 8826 / 100) (401 / 10), XY (- 88) (401 / 10), XY (- 88) (405 / 10),
      XY (- 8826 / 100) (401 / 10)]"

definition outlook_collection :: "real feature_collection" where
  "outlook_collection =
     \<lparr>collection_crs = Some ''EPSG:4326'',
      features =
        [\<lparr>feature_geometry = Polygon outlook_ring [],
          feature_properties = [(''cat'', Str ''Above''), (''prob'', Num 33)]\<rparr>]\<rparr>"

text \<open>A server that advertises two feature types and answers every request with the
  collection above; one that advertises none; one that cannot be reached.\<close>

definition outlook_service :: "(unit, real feature_collection) wfs" where
  "outlook_service =
     \<lparr>contents = [(''CPC_6-10_Day_Temperature_Outlook'', ()),
                  (''CPC_6-10_Day_Precipitation_Outlook'', ())],
      getfeature = (\<lambda>typename outputFormat. Inr outlook_collection)\<rparr>"

definition outlook_client :: "(unit, real feature_collection) client" where
  "outlook_client url version = Inr outlook_service"

definition empty_service :: "(unit, real feature_collection) wfs" where
  "empty_service = \<lparr>contents = [], getfeature = (\<lambda>typename outputFormat. Inr outlook_collection)\<rparr>"

definition empty_client :: "(unit, real feature_collection) client" where
  "empty_client url version = Inr empty_service"

text \<open>
  A server that accepts no protocol version but \<open>2.0.0\<close> and answers no GetFeature
  request but the one for its first feature type in the format \<open>GeoJson\<close>; and a server
  that accepts every version but \<open>2.0.0\<close>.
\<close>

definition exact_service :: "(unit, real feature_collection) wfs" where
  "exact_service =
     \<lparr>contents = [(''CPC_6-10_Day_Temperature_Outlook'', ()),
                  (''CPC_6-10_Day_Precipitation_Outlook'', ())],
      getfeature = (\<lambda>typename outputFormat.
        if typename = [''CPC_6-10_Day_Temperature_Outlook''] \<and> outputFormat = ''GeoJson''
        then Inr outlook_collection
        else Inl (ServiceException ''request refused''))\<rparr>"

definition exact_client :: "(unit, real feature_collection) client" where
  "exact_client url version =
     (if version = ''2.0.0'' then Inr exact_service
      else Inl (ServiceException ''version refused''))"

definition legacy_client :: "(unit, real feature_collection) client" where
  "legacy_client url version =
     (if version = ''2.0.0'' then Inl (ServiceException ''version refused'')
      else Inr outlook_service)"


text \<open>A table of two points, the second with a height.\<close>

definition mixed_table :: "int geodataframe" where
  "mixed_table =
     \<lparr>crs = Some ''EPSG:4326'',
      rows = [\<lparr>properties = [(''cat'', Str ''Above'')], geometry = Point (XY 1 2)\<rparr>,
              \<lparr>properties = [(''cat'', Str ''Below'')], geometry = Point (XYZ 1 2 3)\<rparr>]\<rparr>"

text \<open>A table of a point and a line string, both planar.\<close>

definition planar_table :: "int geodataframe" where
  "planar_table =
     \<lparr>crs = None,
      rows = [\<lparr>properties = [(''cat'', Str ''Above''), (''prob'', Num 33)],
               geometry = Point (XY 1 2)\<rparr>,
              \<lparr>properties = [(''cat'', Str ''Below''), (''prob'', Num 40)],
               geometry = LineString [XY 3 4, XY 5 6]\<rparr>]\<rparr>"

section \<open>Auxiliary facts\<close>

lemma getitem_0: "getitem xs 0 = (case xs of [] \<Rightarrow> Inl IndexError | x # _ \<Rightarrow> Inr x)"
  by (cases xs) (simp_all add: getitem_def)

lemma typenames_append: "typenames (xs @ ys) = typenames xs @ typenames ys"
  by (induction xs rule: typenames.induct) simp_all

lemma output_formats_append: "output_formats (xs @ ys) = output_formats xs @ output_formats ys"
  by (induction xs rule: output_formats.induct) simp_all

lemma versions_append: "versions (xs @ ys) = versions xs @ versions ys"
  by (induction xs rule: versions.induct) simp_all

lemma get_wfs_feature_raises:
  "WebFeatureService url ''2.0.0'' = Inl e \<Longrightarrow>
     get_wfs_feature WebFeatureService url trace = (Inl e, trace @ [Capabilities url ''2.0.0''])"
  by (simp add: get_wfs_feature_def)

lemma get_wfs_feature_no_layer:
  "WebFeatureService url ''2.0.0'' = Inr wfs \<Longrightarrow> contents wfs = [] \<Longrightarrow>
     get_wfs_feature WebFeatureService url trace =
       (Inl IndexError, trace @ [Capabilities url ''2.0.0''])"
  by (simp add: get_wfs_feature_def getitem_0 list_keys_def)

lemma get_wfs_feature_layer:
  "WebFeatureService url ''2.0.0'' = Inr wfs \<Longrightarrow> contents wfs \<noteq> [] \<Longrightarrow>
     get_wfs_feature WebFeatureService url trace =
       (getfeature wfs [fst (hd (contents wfs))] ''GeoJson'',
        trace @ [Capabilities url ''2.0.0'', GetFeature [fst (hd (contents wfs))] ''GeoJson''])"
  by (cases "contents wfs") (simp_all add: get_wfs_feature_def getitem_0 list_keys_def)

lemma get_wfs_feature_cases:
  obtains (raises) e where "WebFeatureService url ''2.0.0'' = Inl e"
  | (no_layer) wfs where "WebFeatureService url ''2.0.0'' = Inr wfs" and "contents wfs = []"
  | (layer) wfs where "WebFeatureService url ''2.0.0'' = Inr wfs" and "contents wfs \<noteq> []"
  by (cases "WebFeatureService url ''2.0.0''") auto

lemma get_wfs_feature_trace:
  "get_wfs_feature WebFeatureService url trace =
     (fst (get_wfs_feature WebFeatureService url []),
      trace @ calls_made WebFeatureService url)"
proof (cases rule: get_wfs_feature_cases [of WebFeatureService url])
  case (raises e)
  then show ?thesis by (simp add: calls_made_def get_wfs_feature_raises)
next
  case (no_layer wfs)
  then show ?thesis by (simp add: calls_made_def get_wfs_feature_no_layer)
next
  case (layer wfs)
  then show ?thesis by (simp add: calls_made_def get_wfs_feature_layer)
qed

section \<open>The fetch\<close>

text \<open>
  C1. Whenever the capabilities advertise at least one feature type, the fetch asks for
  the first name of the advertised list and for no other, and returns what the server
  answers to that request. The choice depends on the advertised list alone: any
  invocation, against any server and address, whose capabilities carry the same list
  asks for the same feature type.
\<close>

theorem first_layer_selected:
  assumes "WebFeatureService url ''2.0.0'' = Inr wfs" and "contents wfs \<noteq> []"
  shows "typenames (calls_made WebFeatureService url) = [[fst (hd (contents wfs))]]
    \<and> fst (get_wfs_feature WebFeatureService url trace)
        = getfeature wfs [fst (hd (contents wfs))] ''GeoJson''
    \<and> (\<forall>WebFeatureService' url' wfs'.
          WebFeatureService' url' ''2.0.0'' = Inr (wfs' :: ('m, 'b) wfs)
            \<and> contents wfs' = contents wfs
          \<longrightarrow> typenames (calls_made WebFeatureService' url')
                = typenames (calls_made WebFeatureService url))"
proof -
  have here: "typenames (calls_made WebFeatureService url) = [[fst (hd (contents wfs))]]"
    using assms by (simp add: calls_made_def get_wfs_feature_layer)
  have there: "typenames (calls_made WebFeatureService' url') = [[fst (hd (contents wfs))]]"
    if "WebFeatureService' url' ''2.0.0'' = Inr wfs'" and "contents wfs' = contents wfs"
    for WebFeatureService' url' and wfs' :: "('m, 'b) wfs"
    using that assms(2) by (simp add: calls_made_def get_wfs_feature_layer)
  have result: "fst (get_wfs_feature WebFeatureService url trace)
      = getfeature wfs [fst (hd (contents wfs))] ''GeoJson''"
    using assms by (simp add: get_wfs_feature_layer)
  from here there result show ?thesis by simp
qed

theorem first_layer_selected_witness:
  "outlook_client ''http://example.com/wfs'' ''2.0.0'' = Inr outlook_service
   \<and> contents outlook_service \<noteq> []
   \<and> typenames (calls_made outlook_client ''http://example.com/wfs'')
       = [[''CPC_6-10_Day_Temperature_Outlook'']]"
proof -
  have reached: "outlook_client ''http://example.com/wfs'' ''2.0.0'' = Inr outlook_service"
    by (simp add: outlook_client_def)
  have layers: "contents outlook_service \<noteq> []"
    by (simp add: outlook_service_def)
  have "typenames (calls_made outlook_client ''http://example.com/wfs'')
      = [[fst (hd (contents outlook_service))]]"
    using first_layer_selected
      [of outlook_client "''http://example.com/wfs''" outlook_service, OF reached layers]
    by (rule conjunct1)
  moreover have "fst (hd (contents outlook_service)) = ''CPC_6-10_Day_Temperature_Outlook''"
    by (simp add: outlook_service_def)
  ultimately show ?thesis using reached layers by simp
qed

text \<open>
  C4, as stated, fails: against a server that advertises no feature type the fetch
  raises the \<open>IndexError\<close> of the subscript.
\<close>

theorem empty_layer_list_counterexample:
  "contents empty_service = []
   \<and> fst (get_wfs_feature empty_client ''http://example.com/wfs'' []) = Inl IndexError"
  by (simp add: get_wfs_feature_def empty_client_def empty_service_def getitem_def
      list_keys_def)

text \<open>
  C4, amended. Whenever the capabilities advertise no feature type, the fetch ends with
  \<open>IndexError\<close>, the same on every invocation, after the capabilities call and without
  any GetFeature request.
\<close>

theorem empty_layer_list_index_error:
  assumes "WebFeatureService url ''2.0.0'' = Inr wfs" and "contents wfs = []"
  shows "fst (get_wfs_feature WebFeatureService url trace) = Inl IndexError
    \<and> calls_made WebFeatureService url = [Capabilities url ''2.0.0'']"
  using assms by (simp add: calls_made_def get_wfs_feature_no_layer)

theorem empty_layer_list_index_error_witness:
  "empty_client base_resource_url ''2.0.0'' = Inr empty_service
   \<and> contents empty_service = []
   \<and> calls_made empty_client base_resource_url = [Capabilities base_resource_url ''2.0.0'']"
proof -
  have reached: "empty_client base_resource_url ''2.0.0'' = Inr empty_service"
    by (simp add: empty_client_def)
  have none: "contents empty_service = []"
    by (simp add: empty_service_def)
  from empty_layer_list_index_error
    [of empty_client base_resource_url empty_service, OF reached none] reached none
  show ?thesis
    by simp
qed

text \<open>
  C5. Whatever the address and whatever the server, every GetFeature request the fetch
  makes declares the output format \<open>GeoJson\<close>. Whenever the capabilities advertise a
  feature type it makes exactly one such request, what it returns is what the server
  answers to the request in that format, and what the server would answer in any other
  format, its default included, plays no part: two servers that advertise the same
  feature types and agree on every \<open>GeoJson\<close> request give the same result.
\<close>

theorem output_format_declared:
  "(\<forall>fmt \<in> set (output_formats (calls_made WebFeatureService url)). fmt = ''GeoJson'')
   \<and> (\<forall>wfs. WebFeatureService url ''2.0.0'' = Inr wfs \<and> contents wfs \<noteq> [] \<longrightarrow>
         output_formats (calls_made WebFeatureService url) = [''GeoJson'']
         \<and> fst (get_wfs_feature WebFeatureService url trace)
             = getfeature wfs [fst (hd (contents wfs))] ''GeoJson''
         \<and> (\<forall>(WebFeatureService' :: ('m, 'b) client) wfs'.
               WebFeatureService' url ''2.0.0'' = Inr (wfs' :: ('m, 'b) wfs)
                 \<and> contents wfs' = contents wfs
                 \<and> (\<forall>typename. getfeature wfs' typename ''GeoJson''
                                   = getfeature wfs typename ''GeoJson'')
               \<longrightarrow> fst (get_wfs_feature WebFeatureService' url trace)
                     = fst (get_wfs_feature WebFeatureService url trace)))"
proof -
  have every: "\<forall>fmt \<in> set (output_formats (calls_made WebFeatureService url)). fmt = ''GeoJson''"
  proof (cases rule: get_wfs_feature_cases [of WebFeatureService url])
    case (raises e)
    then show ?thesis by (simp add: calls_made_def get_wfs_feature_raises)
  next
    case (no_layer wfs)
    then show ?thesis by (simp add: calls_made_def get_wfs_feature_no_layer)
  next
    case (layer wfs)
    then show ?thesis by (simp add: calls_made_def get_wfs_feature_layer)
  qed
  have one: "output_formats (calls_made WebFeatureService url) = [''GeoJson'']
      \<and> fst (get_wfs_feature WebFeatureService url trace)
          = getfeature wfs [fst (hd (contents wfs))] ''GeoJson''
      \<and> (\<forall>(WebFeatureService' :: ('m, 'b) client) wfs'.
            WebFeatureService' url ''2.0.0'' = Inr (wfs' :: ('m, 'b) wfs)
              \<and> contents wfs' = contents wfs
              \<and> (\<forall>typename. getfeature wfs' typename ''GeoJson''
                                = getfeature wfs typename ''GeoJson'')
            \<longrightarrow> fst (get_wfs_feature WebFeatureService' url trace)
                  = fst (get_wfs_feature WebFeatureService url trace))"
    if reached: "WebFeatureService url ''2.0.0'' = Inr wfs" and layers: "contents wfs \<noteq> []"
    for wfs
  proof (intro conjI allI impI)
    show "output_formats (calls_made WebFeatureService url) = [''GeoJson'']"
      using reached layers by (simp add: calls_made_def get_wfs_feature_layer)
    show answer: "fst (get_wfs_feature WebFeatureService url trace)
        = getfeature wfs [fst (hd (contents wfs))] ''GeoJson''"
      using reached layers by (simp add: get_wfs_feature_layer)
    fix WebFeatureService' :: "('m, 'b) client" and wfs' :: "('m, 'b) wfs"
    assume other: "WebFeatureService' url ''2.0.0'' = Inr wfs'
        \<and> contents wfs' = contents wfs
        \<and> (\<forall>typename. getfeature wfs' typename ''GeoJson''
                          = getfeature wfs typename ''GeoJson'')"
    then have "contents wfs' \<noteq> []"
      using layers by simp
    with other have "fst (get_wfs_feature WebFeatureService' url trace)
        = getfeature wfs' [fst (hd (contents wfs'))] ''GeoJson''"
      by (simp add: get_wfs_feature_layer)
    also have "\<dots> = getfeature wfs [fst (hd (contents wfs))] ''GeoJson''"
      using other by simp
    finally show "fst (get_wfs_feature WebFeatureService' url trace)
        = fst (get_wfs_feature WebFeatureService url trace)"
      using answer by simp
  qed
  show ?thesis
  proof (rule conjI [OF every], rule allI, rule impI)
    fix wfs
    assume "WebFeatureService url ''2.0.0'' = Inr wfs \<and> contents wfs \<noteq> []"
    then have "WebFeatureService url ''2.0.0'' = Inr wfs" and "contents wfs \<noteq> []"
      by simp_all
    then show "output_formats (calls_made WebFeatureService url) = [''GeoJson'']
        \<and> fst (get_wfs_feature WebFeatureService url trace)
            = getfeature wfs [fst (hd (contents wfs))] ''GeoJson''
        \<and> (\<forall>(WebFeatureService' :: ('m, 'b) client) wfs'.
              WebFeatureService' url ''2.0.0'' = Inr (wfs' :: ('m, 'b) wfs)
                \<and> contents wfs' = contents wfs
                \<and> (\<forall>typename. getfeature wfs' typename ''GeoJson''
                                  = getfeature wfs typename ''GeoJson'')
              \<longrightarrow> fst (get_wfs_feature WebFeatureService' url trace)
                    = fst (get_wfs_feature WebFeatureService url trace))"
      by (rule one)
  qed
qed

theorem output_format_declared_witness:
  "exact_client base_resource_url ''2.0.0'' = Inr exact_service
   \<and> contents exact_service \<noteq> []
   \<and> getfeature exact_service [''CPC_6-10_Day_Temperature_Outlook''] ''GML''
       = Inl (ServiceException ''request refused'')
   \<and> fst (get_wfs_feature exact_client base_resource_url []) = Inr outlook_collection
   \<and> output_formats (calls_made exact_client base_resource_url) = [''GeoJson'']"
proof -
  have reached: "exact_client base_resource_url ''2.0.0'' = Inr exact_service"
    by (simp add: exact_client_def)
  have layers: "contents exact_service \<noteq> []"
    by (simp add: exact_service_def)
  have refused: "getfeature exact_service [''CPC_6-10_Day_Temperature_Outlook''] ''GML''
      = Inl (ServiceException ''request refused'')"
    by (simp add: exact_service_def)
  have answered: "getfeature exact_service [fst (hd (contents exact_service))] ''GeoJson''
      = Inr outlook_collection"
    by (simp add: exact_service_def)
  have both: "exact_client base_resource_url ''2.0.0'' = Inr exact_service
      \<and> contents exact_service \<noteq> []"
    using reached layers by (rule conjI)
  have fetched: "output_formats (calls_made exact_client base_resource_url) = [''GeoJson'']
      \<and> fst (get_wfs_feature exact_client base_resource_url [])
          = getfeature exact_service [fst (hd (contents exact_service))] ''GeoJson''"
    using output_format_declared
      [where WebFeatureService = exact_client and url = base_resource_url and trace = "[]",
        THEN conjunct2, THEN spec, THEN mp, OF both]
    by (intro conjI) (erule conjE, assumption, elim conjE, assumption)
  from fetched have formats: "output_formats (calls_made exact_client base_resource_url)
      = [''GeoJson'']"
    by (rule conjunct1)
  from fetched have "fst (get_wfs_feature exact_client base_resource_url [])
      = getfeature exact_service [fst (hd (contents exact_service))] ''GeoJson''"
    by (rule conjunct2)
  from this answered have result: "fst (get_wfs_feature exact_client base_resource_url [])
      = Inr outlook_collection"
    by (rule trans)
  from reached layers refused result formats show ?thesis
    by (intro conjI)
qed

text \<open>
  C6. Whatever the address, the fetch makes exactly one capabilities call, its first
  call, with the address as given and the version \<open>2.0.0\<close>. It is the answer at that
  version that decides: when the server refuses it the fetch ends with that refusal,
  and what the server would answer at any other version, one written inside the
  address included, plays no part.
\<close>

theorem fixed_protocol_version:
  "versions (calls_made WebFeatureService url) = [''2.0.0'']
   \<and> hd (calls_made WebFeatureService url) = Capabilities url ''2.0.0''
   \<and> (\<forall>e. WebFeatureService url ''2.0.0'' = Inl e \<longrightarrow>
         fst (get_wfs_feature WebFeatureService url trace) = Inl e)
   \<and> (\<forall>WebFeatureService'.
         WebFeatureService' url ''2.0.0'' = WebFeatureService url ''2.0.0'' \<longrightarrow>
         get_wfs_feature WebFeatureService' url trace
           = get_wfs_feature WebFeatureService url trace)"
proof -
  have logged: "versions (calls_made WebFeatureService url) = [''2.0.0'']
      \<and> hd (calls_made WebFeatureService url) = Capabilities url ''2.0.0''"
  proof (cases rule: get_wfs_feature_cases [of WebFeatureService url])
    case (raises e)
    then show ?thesis by (simp add: calls_made_def get_wfs_feature_raises)
  next
    case (no_layer wfs)
    then show ?thesis by (simp add: calls_made_def get_wfs_feature_no_layer)
  next
    case (layer wfs)
    then show ?thesis by (simp add: calls_made_def get_wfs_feature_layer)
  qed
  have refused: "fst (get_wfs_feature WebFeatureService url trace) = Inl e"
    if "WebFeatureService url ''2.0.0'' = Inl e" for e
    using that by (simp add: get_wfs_feature_raises)
  have decided: "get_wfs_feature WebFeatureService' url trace
      = get_wfs_feature WebFeatureService url trace"
    if "WebFeatureService' url ''2.0.0'' = WebFeatureService url ''2.0.0''"
    for WebFeatureService'
    using that by (simp add: get_wfs_feature_def)
  from logged refused decided show ?thesis
    by blast
qed

theorem fixed_protocol_version_witness:
  "legacy_client base_resource_url ''1.0.0'' = Inr outlook_service
   \<and> legacy_client base_resource_url ''2.0.0'' = Inl (ServiceException ''version refused'')
   \<and> fst (get_wfs_feature legacy_client base_resource_url [])
       = Inl (ServiceException ''version refused'')
   \<and> versions (calls_made legacy_client base_resource_url) = [''2.0.0'']"
proof -
  have accepted: "legacy_client base_resource_url ''1.0.0'' = Inr outlook_service"
    by (simp add: legacy_client_def)
  have refused: "legacy_client base_resource_url ''2.0.0''
      = Inl (ServiceException ''version refused'')"
    by (simp add: legacy_client_def)
  from fixed_protocol_version [of legacy_client base_resource_url "[]"] refused
  have "versions (calls_made legacy_client base_resource_url) = [''2.0.0'']
      \<and> fst (get_wfs_feature legacy_client base_resource_url [])
          = Inl (ServiceException ''version refused'')"
    by blast
  with accepted refused show ?thesis
    by simp
qed

section \<open>The axis swap\<close>

lemma try_map_guarded:
  "(\<And>x. x \<in> set xs \<Longrightarrow> f x = (if P x then Inr (g x) else Inl e))
     \<Longrightarrow> try_map f xs = (if \<forall>x \<in> set xs. P x then Inr (map g xs) else Inl e)"
  by (induction xs) auto

lemma flip_xy_guarded: "flip_xy c = (if is_xy c then Inr (swap_position c) else Inl TypeError)"
  by (cases c) auto

lemma try_map_flip_xy:
  "try_map flip_xy cs =
     (if \<forall>c \<in> set cs. is_xy c then Inr (map swap_position cs) else Inl TypeError)"
  by (rule try_map_guarded) (rule flip_xy_guarded)

lemma try_map_rings:
  "try_map (try_map flip_xy) hs =
     (if \<forall>h \<in> set hs. \<forall>c \<in> set h. is_xy c then Inr (map (map swap_position) hs)
      else Inl TypeError)"
  by (rule try_map_guarded) (rule try_map_flip_xy)

lemma transform_parts_try_map: "transform_parts func gs = try_map (transform func) gs"
  by (induction gs) (simp_all split: sum.splits)

lemma transform_flip_xy:
  "transform flip_xy g = (if planar g then Inr (swap_axes g) else Inl TransformError)"
proof (induction g)
  case (Point c)
  show ?case by (simp add: flip_xy_guarded)
next
  case (LineString cs)
  show ?case by (simp add: try_map_flip_xy)
next
  case (LinearRing cs)
  show ?case by (simp add: try_map_flip_xy)
next
  case (Polygon shell holes)
  show ?case by (simp add: try_map_flip_xy try_map_rings)
next
  case (Collection kind parts)
  have "try_map (transform flip_xy) parts =
      (if \<forall>g \<in> set parts. planar g then Inr (map swap_axes parts)
       else Inl TransformError)"
    by (rule try_map_guarded) (rule Collection.IH)
  then show ?case by (simp add: transform_parts_try_map)
qed

lemma flip_polygon_guarded:
  "flip_polygon g = (if planar g then Inr (swap_axes g) else Inl TransformError)"
  by (simp add: flip_polygon_def transform_flip_xy)

lemma swap_position_twice: "swap_position (swap_position c) = c"
  by (cases c) auto

lemma swap_axes_twice: "swap_axes (swap_axes g) = g"
  by (induction g) (auto simp: swap_position_twice comp_def map_idI)

lemma is_xy_swap: "is_xy (swap_position c) = is_xy c"
  by (cases c) auto

lemma planar_swap_axes: "planar (swap_axes g) = planar g"
  by (induction g) (auto simp: is_xy_swap)

lemma flip_twice_guarded: "flip_twice g = (if planar g then Inr g else Inl TransformError)"
  by (simp add: flip_twice_def flip_polygon_guarded planar_swap_axes swap_axes_twice)

lemma zip_map_self: "zip xs (map h xs) = map (\<lambda>x. (x, h x)) xs"
  by (induction xs) simp_all

lemma set_geometry_column_map:
  "set_geometry_column gdf (map h (geometry_column gdf))
     = gdf\<lparr>rows := map (\<lambda>r. r\<lparr>geometry := h (geometry r)\<rparr>) (rows gdf)\<rparr>"
  by (simp add: set_geometry_column_def geometry_column_def zip_map_self comp_def)

lemma flip_x_and_y_guarded:
  "flip_x_and_y gdf =
     (if \<forall>r \<in> set (rows gdf). planar (geometry r) then Inr (normalize_as_specified gdf)
      else Inl TransformError)"
proof -
  have "try_map flip_polygon (geometry_column gdf) =
      (if \<forall>g \<in> set (geometry_column gdf). planar g
       then Inr (map swap_axes (geometry_column gdf)) else Inl TransformError)"
    by (rule try_map_guarded) (rule flip_polygon_guarded)
  moreover have "(\<forall>g \<in> set (geometry_column gdf). planar g)
      = (\<forall>r \<in> set (rows gdf). planar (geometry r))"
    by (simp add: geometry_column_def)
  ultimately show ?thesis
    by (simp add: flip_x_and_y_def set_geometry_column_map normalize_as_specified_def)
qed

lemma normalize_frame:
  "map properties (rows (normalize_as_specified gdf)) = map properties (rows gdf)"
  "length (rows (normalize_as_specified gdf)) = length (rows gdf)"
  "crs (normalize_as_specified gdf) = crs gdf"
  "column name (normalize_as_specified gdf) = column name gdf"
  "geometry_column (normalize_as_specified gdf) = map swap_axes (geometry_column gdf)"
  by (simp_all add: normalize_as_specified_def column_def geometry_column_def comp_def)

lemma gdf_after_guarded:
  "gdf_after gdf = (if \<forall>r \<in> set (rows gdf). planar (geometry r) then normalize_as_specified gdf else gdf)"
  by (simp add: gdf_after_def flip_x_and_y_guarded)

text \<open>
  C2, as stated, fails: on a point with a height the function mapped over the geometry
  column raises, so applying it twice does not give the point back.
\<close>

theorem flip_twice_counterexample:
  "isl (flip_twice (Point (XYZ (1::int) 2 3)))
   \<and> flip_twice (Point (XYZ (1::int) 2 3)) \<noteq> Inr (Point (XYZ 1 2 3))"
  by (simp add: flip_twice_def flip_polygon_def)

text \<open>
  C2, amended. For every planar geometry (each position a pair), applying the function
  mapped over the geometry column twice returns the geometry itself; and whenever the
  double application returns at all, it returns the geometry it was given.
\<close>

theorem flip_twice_identity:
  "(planar g \<longrightarrow> flip_twice g = Inr g)
   \<and> (\<forall>g'. flip_twice g = Inr g' \<longrightarrow> g' = g)"
proof (cases "planar g")
  case True
  then have "flip_twice g = Inr g"
    by (simp add: flip_twice_guarded)
  with True show ?thesis
    by simp
next
  case False
  then have "flip_twice g \<noteq> Inr g'" for g'
    by (simp add: flip_twice_guarded)
  with False show ?thesis
    by simp
qed

theorem flip_twice_identity_witness:
  "flip_twice (Point (XY (1::int) 2)) = Inr (Point (XY 1 2))
   \<and> flip_twice (Polygon outlook_ring [[XY 0 0, XY 0 1, XY 1 0, XY 0 0]])
       = Inr (Polygon outlook_ring [[XY 0 0, XY 0 1, XY 1 0, XY 0 0]])"
proof -
  have "planar (Point (XY (1::int) 2))"
    by simp
  moreover have "planar (Polygon outlook_ring [[XY 0 0, XY 0 1, XY 1 0, XY 0 0]])"
    by (simp add: outlook_ring_def)
  ultimately show ?thesis
    using flip_twice_identity [of "Point (XY (1::int) 2)"]
      flip_twice_identity [of "Polygon outlook_ring [[XY 0 0, XY 0 1, XY 1 0, XY 0 0]]"]
    by blast
qed

text \<open>
  C3, as stated, fails: on a table holding a planar point and a point with a height the
  statement raises, and no geometry of the table is swapped.
\<close>

theorem blind_swap_counterexample:
  "isl (flip_x_and_y mixed_table)
   \<and> flip_x_and_y mixed_table \<noteq> Inr (normalize_as_specified mixed_table)"
  by (simp add: flip_x_and_y_def mixed_table_def geometry_column_def flip_polygon_def)

text \<open>
  C3, amended. For every table whose geometries are all planar, the statement yields
  the table in which every geometry has the first and second component of each of its
  positions swapped, row by row in the same order, each geometry from the geometry of
  its own row alone; the declared coordinate reference system plays no part, and is
  kept.
\<close>

theorem blind_swap_of_planar:
  assumes "\<forall>r \<in> set (rows gdf). planar (geometry r)"
  shows "flip_x_and_y gdf = Inr (normalize_as_specified gdf)
    \<and> geometry_column (normalize_as_specified gdf) = map swap_axes (geometry_column gdf)
    \<and> (\<forall>c. flip_x_and_y (gdf\<lparr>crs := c\<rparr>) = Inr ((normalize_as_specified gdf)\<lparr>crs := c\<rparr>))"
proof -
  have "flip_x_and_y (gdf\<lparr>crs := c\<rparr>) = Inr ((normalize_as_specified gdf)\<lparr>crs := c\<rparr>)" for c
    using assms by (simp add: flip_x_and_y_guarded normalize_as_specified_def)
  with assms show ?thesis
    by (simp add: flip_x_and_y_guarded normalize_frame)
qed

theorem blind_swap_of_planar_witness:
  "flip_x_and_y planar_table =
     Inr \<lparr>crs = None,
          rows = [\<lparr>properties = [(''cat'', Str ''Above''), (''prob'', Num 33)],
                   geometry = Point (XY 2 1)\<rparr>,
                  \<lparr>properties = [(''cat'', Str ''Below''), (''prob'', Num 40)],
                   geometry = LineString [XY 4 3, XY 6 5]\<rparr>]\<rparr>"
proof -
  have "\<forall>r \<in> set (rows planar_table). planar (geometry r)"
    by (simp add: planar_table_def)
  from blind_swap_of_planar [OF this] show ?thesis
    by (simp add: normalize_as_specified_def planar_table_def)
qed

section \<open>The table\<close>




text \<open>
  C9. For every table, the axis swap leaves the attributes of every row, hence every
  attribute column, the number and order of the rows and the coordinate reference
  system as they were, whether it completes or raises; when it completes, the geometry
  of each row is the flipped geometry of the same row of the table before.
\<close>

theorem only_geometry_reassigned:
  "map properties (rows (gdf_after gdf)) = map properties (rows gdf)
   \<and> (\<forall>name. column name (gdf_after gdf) = column name gdf)
   \<and> crs (gdf_after gdf) = crs gdf
   \<and> length (rows (gdf_after gdf)) = length (rows gdf)
   \<and> (\<forall>gdf'. flip_x_and_y gdf = Inr gdf' \<longrightarrow>
         gdf_after gdf = gdf'
         \<and> (\<forall>i < length (rows gdf).
               flip_polygon (geometry (rows gdf ! i)) = Inr (geometry (rows gdf' ! i))))"
proof -
  have kept: "map properties (rows (gdf_after gdf)) = map properties (rows gdf)"
    "column name (gdf_after gdf) = column name gdf"
    "crs (gdf_after gdf) = crs gdf"
    "length (rows (gdf_after gdf)) = length (rows gdf)" for name
    by (simp_all add: gdf_after_guarded normalize_frame)
  have flipped: "gdf_after gdf = gdf'
      \<and> (\<forall>i < length (rows gdf).
            flip_polygon (geometry (rows gdf ! i)) = Inr (geometry (rows gdf' ! i)))"
    if "flip_x_and_y gdf = Inr gdf'" for gdf'
  proof -
    from that have planar: "\<forall>r \<in> set (rows gdf). planar (geometry r)"
      and result: "gdf' = normalize_as_specified gdf"
      by (auto simp: flip_x_and_y_guarded split: if_splits)
    have "flip_polygon (geometry (rows gdf ! i)) = Inr (geometry (rows gdf' ! i))"
      if "i < length (rows gdf)" for i
      using that planar result
      by (simp add: flip_polygon_guarded normalize_as_specified_def)
    with that show ?thesis
      by (simp add: gdf_after_def)
  qed
  from kept flipped show ?thesis
    by blast
qed

theorem only_geometry_reassigned_witness:
  "column ''cat'' (gdf_after planar_table) = [Some (Str ''Above''), Some (Str ''Below'')]
   \<and> column ''prob'' (gdf_after planar_table) = [Some (Num 33), Some (Num 40)]
   \<and> column ''cat'' (gdf_after mixed_table) = [Some (Str ''Above''), Some (Str ''Below'')]"
proof -
  have "column ''cat'' planar_table = [Some (Str ''Above''), Some (Str ''Below'')]"
    and "column ''prob'' planar_table = [Some (Num 33), Some (Num 40)]"
    by (simp_all add: column_def planar_table_def)
  moreover have "column ''cat'' mixed_table = [Some (Str ''Above''), Some (Str ''Below'')]"
    by (simp add: column_def mixed_table_def)
  ultimately show ?thesis
    using only_geometry_reassigned [of planar_table] only_geometry_reassigned [of mixed_table]
    by simp
qed

section \<open>The cell, end to end\<close>

text \<open>
  C8. Against any endpoint whose capabilities advertise a feature type and whose answer
  to the GetFeature request for the first of them is a collection of a single planar
  polygon feature with the attributes \<open>cat = "Above"\<close> and \<open>prob = 33\<close> and with
  \<open>[-88.26, 40.1]\<close> as the first position of its ring, the cell yields a table of
  exactly one row, whose \<open>cat\<close> is \<open>"Above"\<close>, whose \<open>prob\<close> is \<open>33\<close> and whose
  geometry is the polygon with \<open>(40.1, -88.26)\<close> as its first position.
\<close>

theorem end_to_end_scenario:
  fixes rest :: "real position list" and holes :: "real position list list"
  assumes "WebFeatureService url ''2.0.0'' = Inr wfs"
    and "contents wfs \<noteq> []"
    and "getfeature wfs [fst (hd (contents wfs))] ''GeoJson'' = Inr feature"
    and "features feature =
           [\<lparr>feature_geometry = Polygon (XY (- 8826 / 100) (401 / 10) # rest) holes,
             feature_properties = [(''cat'', Str ''Above''), (''prob'', Num 33)]\<rparr>]"
    and "planar (Polygon rest holes)"
  shows "\<exists>gdf. fst (fetch_load_flip WebFeatureService url trace) = Inr gdf
    \<and> length (rows gdf) = 1
    \<and> column ''cat'' gdf = [Some (Str ''Above'')]
    \<and> column ''prob'' gdf = [Some (Num 33)]
    \<and> geometry_column gdf =
        [Polygon (XY (401 / 10) (- 8826 / 100) # map swap_position rest)
           (map (map swap_position) holes)]"
proof -
  have fetched: "get_wfs_feature WebFeatureService url trace =
      (Inr feature,
       trace @ [Capabilities url ''2.0.0'', GetFeature [fst (hd (contents wfs))] ''GeoJson''])"
    using assms(1-3) by (simp add: get_wfs_feature_layer)
  have loaded: "rows (read_file feature) =
      [\<lparr>properties = [(''cat'', Str ''Above''), (''prob'', Num 33)],
        geometry = Polygon (XY (- 8826 / 100) (401 / 10) # rest) holes\<rparr>]"
    using assms(4) by (simp add: read_file_def)
  have flipped: "flip_x_and_y (read_file feature) = Inr (normalize_as_specified (read_file feature))"
    using loaded assms(5) by (simp add: flip_x_and_y_guarded)
  have cell: "fst (fetch_load_flip WebFeatureService url trace)
      = Inr (normalize_as_specified (read_file feature))"
    using fetched flipped by (simp add: fetch_load_flip_def)
  have "rows (normalize_as_specified (read_file feature)) =
      [\<lparr>properties = [(''cat'', Str ''Above''), (''prob'', Num 33)],
        geometry = Polygon (XY (401 / 10) (- 8826 / 100) # map swap_position rest)
          (map (map swap_position) holes)\<rparr>]"
    using loaded by (simp add: normalize_as_specified_def)
  then have "length (rows (normalize_as_specified (read_file feature))) = 1
      \<and> column ''cat'' (normalize_as_specified (read_file feature)) = [Some (Str ''Above'')]
      \<and> column ''prob'' (normalize_as_specified (read_file feature)) = [Some (Num 33)]
      \<and> geometry_column (normalize_as_specified (read_file feature)) =
          [Polygon (XY (401 / 10) (- 8826 / 100) # map swap_position rest)
             (map (map swap_position) holes)]"
    by (simp add: column_def geometry_column_def)
  with cell show ?thesis
    by blast
qed

theorem end_to_end_scenario_witness:
  "\<exists>gdf. fst (fetch_load_flip outlook_client base_resource_url []) = Inr gdf
     \<and> length (rows gdf) = 1
     \<and> column ''cat'' gdf = [Some (Str ''Above'')]
     \<and> column ''prob'' gdf = [Some (Num 33)]
     \<and> geometry_column gdf =
         [Polygon [XY (401 / 10) (- 8826 / 100), XY (401 / 10) (- 88), XY (405 / 10) (- 88),
                   XY (401 / 10) (- 8826 / 100)] []]"
proof -
  have reached: "outlook_client base_resource_url ''2.0.0'' = Inr outlook_service"
    by (simp add: outlook_client_def)
  have layers: "contents outlook_service \<noteq> []"
    by (simp add: outlook_service_def)
  have answer: "getfeature outlook_service [fst (hd (contents outlook_service))] ''GeoJson''
      = Inr outlook_collection"
    by (simp add: outlook_service_def)
  have single: "features outlook_collection =
      [\<lparr>feature_geometry =
          Polygon (XY (- 8826 / 100) (401 / 10)
                   # [XY (- 88) (401 / 10), XY (- 88) (405 / 10), XY (- 8826 / 100) (401 / 10)]) [],
        feature_properties = [(''cat'', Str ''Above''), (''prob'', Num 33)]\<rparr>]"
    by (simp add: outlook_collection_def outlook_ring_def)
  have flat: "planar (Polygon
      [XY (- 88) (401 / 10), XY (- 88) (405 / 10), XY (- 8826 / 100) (401 / 10 :: real)] [])"
    by simp
  from end_to_end_scenario
    [where WebFeatureService = outlook_client and url = base_resource_url
       and wfs = outlook_service and feature = outlook_collection and holes = "[]"
       and rest = "[XY (- 88) (401 / 10), XY (- 88) (405 / 10), XY (- 8826 / 100) (401 / 10)]"
       and trace = "[]",
     OF reached layers answer single flat]
  show ?thesis
    by simp
qed


end
